theory Spec2Isabelle
  imports Complex_Main
begin

section \<open>The WebSet research tool (src/tools/websetResearch.ts)\<close>

text \<open>
  A shallow embedding of the handler of the tool \<open>run_webset_research\<close>: it builds a
  creation payload from the arguments, posts it, and (when asked to wait) polls the status
  of the job in a bounded loop before fetching its items.

  Everything the handler does to the outside (log lines, HTTP requests, sleeps) is
  recorded, in order, in a trace of events. The remote service is an oracle that answers
  each request, either with the data of the response or with the value that the
  \<open>await\<close> throws.
\<close>

subsection \<open>Values\<close>

text \<open>
  A JavaScript number: a finite value, one of the infinities, or NaN. Negative zero is
  not told apart from zero (both are falsy).
\<close>

datatype number = Finite rat | Infinity | NegInfinity | NaN

text \<open>JSON values as the handler builds and receives them; an object keeps its keys in order.\<close>

datatype json =
    JNull
  | JBool bool
  | JNum number
  | JStr string
  | JArr "json list"
  | JObj "(string \<times> json) list"

text \<open>Truthiness of the two primitive kinds the handler tests with \<open>&&\<close>.\<close>

fun truthy_number :: "number \<Rightarrow> bool" where
  "truthy_number (Finite q) = (q \<noteq> 0)"
| "truthy_number Infinity = True"
| "truthy_number NegInfinity = True"
| "truthy_number NaN = False"

definition truthy_string :: "string \<Rightarrow> bool" where
  "truthy_string s = (s \<noteq> [])"

text \<open>Decimal rendering of a non-negative integer inside a template string.\<close>

definition digit_char :: "nat \<Rightarrow> char" where
  "digit_char d = char_of (of_char CHR ''0'' + d)"

fun string_of_nat :: "nat \<Rightarrow> string" where
  "string_of_nat n =
     (if 10 \<le> n then string_of_nat (n div 10) @ [digit_char (n mod 10)] else [digit_char n])"

declare string_of_nat.simps [simp del]

definition string_of_bool :: "bool \<Rightarrow> string" where
  "string_of_bool b = (if b then ''true'' else ''false'')"

subsection \<open>Arguments of the tool\<close>

text \<open>The schema \<open>enrichmentSchema\<close>.\<close>

record enrichment =
  description :: string
  format :: string

text \<open>
  The arguments as the handler destructures them. An optional field of the schema is an
  \<open>option\<close>; \<open>waitForCompletion\<close> has the schema's default \<open>true\<close> applied before
  the handler runs, so it is a plain boolean here.
\<close>

record args =
  query :: string
  count :: "number option"
  criteria :: "string option"
  entityType :: "string option"
  enrichments :: "enrichment list option"
  metadata :: "(string \<times> json) list option"
  waitForCompletion :: bool

subsection \<open>Errors, responses and outcomes\<close>

text \<open>
  The response attached to an axios error: its HTTP status and the field
  \<open>data.message\<close> when the body has one.
\<close>

record response =
  status :: nat
  data_message :: "string option"

text \<open>
  What a \<open>throw\<close> carries: an axios error (the only kind \<open>axios.isAxiosError\<close>
  accepts), with its message and its response if any, or a plain \<open>Error\<close>.
\<close>

datatype thrown =
    AxiosError string "response option"
  | Error string

fun message :: "thrown \<Rightarrow> string" where
  "message (AxiosError m r) = m"
| "message (Error m) = m"

text \<open>
  The value the handler returns to the tool framework; \<open>ctype\<close> and \<open>ctext\<close> are the
  fields \<open>type\<close> and \<open>text\<close> of a content item. A result without the key
  \<open>isError\<close> has \<open>isError = None\<close>.
\<close>

record content_item =
  ctype :: string
  ctext :: string

record outcome =
  content :: "content_item list"
  isError :: "bool option"

subsection \<open>Effects\<close>

text \<open>
  The four methods of the request logger, the two HTTP verbs of the axios instance (a
  relative URL, and the body for a POST), and \<open>sleep\<close> with its milliseconds. The
  instance is created once with a fixed base URL, the API key header and a 30 second
  timeout; these are the same on every request and are not repeated in the events.
\<close>

datatype event =
    LogStart string
  | LogLog string
  | LogError string
  | LogErrorObj thrown
  | LogComplete
  | HttpPost string json
  | HttpGet string
  | Sleep nat

type_synonym trace = "event list"

text \<open>
  The remote service. The creation call is made at most once; the \<open>n\<close>-th answer of the
  status endpoint and of the items endpoint is indexed by the number of earlier requests
  to that same URL. A status answer is the string in \<open>data.status\<close>; the declared type
  lists running, completed, idle, failed and error, and the handler compares strings, so
  any string is allowed.
\<close>

record remote =
  post_reply :: "thrown + string"
  status_reply :: "nat \<Rightarrow> thrown + string"
  items_reply :: "nat \<Rightarrow> thrown + json"

subsection \<open>The creation payload\<close>

text \<open>
  Each \<open>...(x && {k: v})\<close> spreads the object when \<open>x\<close> is truthy and nothing
  otherwise (spreading \<open>undefined\<close>, \<open>0\<close>, \<open>NaN\<close>, the empty string or \<open>false\<close> adds
  no key). An array and an object are always truthy.
\<close>

definition spread_count :: "number option \<Rightarrow> (string \<times> json) list" where
  "spread_count c =
     (case c of None \<Rightarrow> []
      | Some n \<Rightarrow> if truthy_number n then [(''count'', JNum n)] else [])"

definition spread_criteria :: "string option \<Rightarrow> (string \<times> json) list" where
  "spread_criteria c =
     (case c of None \<Rightarrow> []
      | Some s \<Rightarrow> if truthy_string s then [(''criteria'', JStr s)] else [])"

definition spread_entity :: "string option \<Rightarrow> (string \<times> json) list" where
  "spread_entity t =
     (case t of None \<Rightarrow> []
      | Some s \<Rightarrow> if truthy_string s then [(''entity'', JObj [(''type'', JStr s)])] else [])"

definition json_of_enrichment :: "enrichment \<Rightarrow> json" where
  "json_of_enrichment e =
     JObj [(''description'', JStr (description e)), (''format'', JStr (format e))]"

definition spread_enrichments :: "enrichment list option \<Rightarrow> (string \<times> json) list" where
  "spread_enrichments es =
     (case es of None \<Rightarrow> []
      | Some xs \<Rightarrow>
          if length xs > 0 then [(''enrichments'', JArr (map json_of_enrichment xs))] else [])"

definition spread_metadata :: "(string \<times> json) list option \<Rightarrow> (string \<times> json) list" where
  "spread_metadata m =
     (case m of None \<Rightarrow> [] | Some kvs \<Rightarrow> [(''metadata'', JObj kvs)])"

definition websetParams :: "args \<Rightarrow> json" where
  "websetParams a =
     JObj ([(''search'', JObj ([(''query'', JStr (query a))] @ spread_count (count a)))]
           @ spread_criteria (criteria a)
           @ spread_entity (entityType a)
           @ spread_enrichments (enrichments a)
           @ spread_metadata (metadata a))"

subsection \<open>The polling loop\<close>

definition maxAttempts :: nat where
  "maxAttempts = 12"

definition pollInterval :: nat where
  "pollInterval = 5000"

definition createUrl :: string where
  "createUrl = ''/websets/v0/websets/''"

definition statusUrl :: "string \<Rightarrow> string" where
  "statusUrl websetId = ''/websets/v0/websets/'' @ websetId"

definition itemsUrl :: "string \<Rightarrow> string" where
  "itemsUrl websetId = ''/websets/v0/websets/'' @ websetId @ ''/items''"

text \<open>
  The body of the inner \<open>try\<close> for one attempt. It returns \<open>Inl e\<close> when \<open>e\<close> is
  thrown inside the block, \<open>Inr (Some out)\<close> when the handler returns \<open>out\<close> from
  it, and \<open>Inr None\<close> when the block runs to its end (after the sleep).
  \<open>stringify x\<close> stands for \<open>JSON.stringify(x, null, 2)\<close>.
\<close>

definition poll_try ::
  "(json \<Rightarrow> string) \<Rightarrow> remote \<Rightarrow> string \<Rightarrow> nat \<Rightarrow> trace \<Rightarrow> (thrown + outcome option) \<times> trace" where
  "poll_try stringify r websetId attempt tr =
     (let tr1 = tr @ [HttpGet (statusUrl websetId)] in
      case status_reply r (count_list tr (HttpGet (statusUrl websetId))) of
        Inl e \<Rightarrow> (Inl e, tr1)
      | Inr st \<Rightarrow>
          let tr2 = tr1 @ [LogLog (''Attempt '' @ string_of_nat attempt
                                   @ '': WebSet status is '' @ [CHR 0x27] @ st @ [CHR 0x27])] in
          if st = ''completed'' \<or> st = ''idle'' then
            let tr3 = tr2 @ [LogLog (''WebSet '' @ websetId @ '' completed. Fetching items...''),
                             HttpGet (itemsUrl websetId)] in
            case items_reply r (count_list tr2 (HttpGet (itemsUrl websetId))) of
              Inl e \<Rightarrow> (Inl e, tr3)
            | Inr d \<Rightarrow>
                (Inr (Some \<lparr>content = [\<lparr>ctype = ''text'', ctext = stringify d\<rparr>], isError = None\<rparr>),
                 tr3 @ [LogComplete])
          else if st = ''failed'' \<or> st = ''error'' then
            (Inl (Error (''WebSet research failed with status: '' @ st)),
             tr2 @ [LogError (''WebSet '' @ websetId @ '' failed with status: '' @ st)])
          else (Inr None, tr2 @ [Sleep pollInterval]))"

text \<open>
  The \<open>for\<close> loop from \<open>attempt\<close> on, with the \<open>catch (pollError)\<close> of each attempt.
  \<open>Inr None\<close> means that the loop ran to its end without a return or a throw.
\<close>

function poll_loop ::
  "(json \<Rightarrow> string) \<Rightarrow> remote \<Rightarrow> string \<Rightarrow> nat \<Rightarrow> trace \<Rightarrow> (thrown + outcome option) \<times> trace" where
  "poll_loop stringify r websetId attempt tr =
     (if attempt \<le> maxAttempts then
        (case poll_try stringify r websetId attempt tr of
           (Inr (Some out), tr1) \<Rightarrow> (Inr (Some out), tr1)
         | (Inr None, tr1) \<Rightarrow> poll_loop stringify r websetId (attempt + 1) tr1
         | (Inl pollError, tr1) \<Rightarrow>
             (let tr2 = tr1 @ [LogError (''Polling attempt '' @ string_of_nat attempt
                                         @ '' failed: '' @ message pollError)] in
              if attempt = maxAttempts then
                (Inl (Error (''Failed to get WebSet status after '' @ string_of_nat maxAttempts
                             @ '' attempts.'')), tr2)
              else poll_loop stringify r websetId (attempt + 1) (tr2 @ [Sleep pollInterval])))
      else (Inr None, tr))"
  by pat_completeness auto
termination
  by (relation "measure (\<lambda>(stringify, r, websetId, attempt, tr). maxAttempts + 1 - attempt)") auto

declare poll_loop.simps [simp del]

subsection \<open>The handler\<close>

text \<open>The body of the outer \<open>try\<close>.\<close>

definition handler_try ::
  "(json \<Rightarrow> string) \<Rightarrow> remote \<Rightarrow> args \<Rightarrow> trace \<Rightarrow> (thrown + outcome) \<times> trace" where
  "handler_try stringify r a tr =
     (let tr1 = tr @ [LogLog ''Sending request to create WebSet...'',
                      HttpPost createUrl (websetParams a)] in
      case post_reply r of
        Inl e \<Rightarrow> (Inl e, tr1)
      | Inr websetId \<Rightarrow>
          let tr2 = tr1 @ [LogLog (''WebSet created with ID: '' @ websetId)] in
          if \<not> waitForCompletion a then
            (Inr \<lparr>content = [\<lparr>ctype = ''text'',
                               ctext = stringify (JObj
                                 [(''message'', JStr ''WebSet research initiated successfully.''),
                                  (''websetId'', JStr websetId),
                                  (''status'', JStr ''running'')])\<rparr>],
                  isError = None\<rparr>,
             tr2 @ [LogComplete])
          else
            (case poll_loop stringify r websetId 1
                    (tr2 @ [LogLog (''Waiting for WebSet '' @ websetId @ '' completion...'')]) of
               (Inl e, tr3) \<Rightarrow> (Inl e, tr3)
             | (Inr (Some out), tr3) \<Rightarrow> (Inr out, tr3)
             | (Inr None, tr3) \<Rightarrow>
                 (Inl (Error ''WebSet research timed out.''),
                  tr3 @ [LogError (''WebSet '' @ websetId
                                   @ '' did not complete within the timeout period.'')])))"

text \<open>The outer \<open>catch (error)\<close>.\<close>

definition statusCode :: "thrown \<Rightarrow> string" where
  "statusCode e =
     (case e of
        AxiosError m (Some rp) \<Rightarrow> if status rp \<noteq> 0 then string_of_nat (status rp) else ''unknown''
      | _ \<Rightarrow> ''unknown'')"

definition errorMessage :: "thrown \<Rightarrow> string" where
  "errorMessage e =
     (case e of
        AxiosError m (Some rp) \<Rightarrow>
          (case data_message rp of
             Some dm \<Rightarrow> if truthy_string dm then dm else m
           | None \<Rightarrow> m)
      | _ \<Rightarrow> message e)"

definition error_outcome :: "string \<Rightarrow> outcome" where
  "error_outcome t = \<lparr>content = [\<lparr>ctype = ''text'', ctext = t\<rparr>], isError = Some True\<rparr>"

definition handler_catch :: "thrown \<Rightarrow> trace \<Rightarrow> outcome \<times> trace" where
  "handler_catch e tr =
     (let tr1 = tr @ [LogErrorObj e] in
      case e of
        AxiosError m rp \<Rightarrow>
          (error_outcome (''WebSet API error ('' @ statusCode e @ ''): '' @ errorMessage e),
           tr1 @ [LogLog (''Axios error ('' @ statusCode e @ ''): '' @ errorMessage e)])
      | Error m \<Rightarrow> (error_outcome (''WebSet operation failed: '' @ m), tr1))"

text \<open>
  The handler: \<open>env_key\<close> is \<open>process.env.EXA_API_KEY\<close>. The result is the returned
  outcome and the trace of everything done.
\<close>

definition handler ::
  "(json \<Rightarrow> string) \<Rightarrow> string option \<Rightarrow> remote \<Rightarrow> args \<Rightarrow> outcome \<times> trace" where
  "handler stringify env_key r a =
     (let tr0 = [LogStart (''Query: '' @ query a @ '', Wait: ''
                           @ string_of_bool (waitForCompletion a))];
          apiKey = (case env_key of Some k \<Rightarrow> if truthy_string k then k else [] | None \<Rightarrow> [])
      in
      if \<not> truthy_string apiKey then
        (error_outcome ''Configuration error: EXA_API_KEY is missing.'',
         tr0 @ [LogError ''EXA_API_KEY is not set.''])
      else
        (case handler_try stringify r a tr0 of
           (Inr out, tr) \<Rightarrow> (out, tr)
         | (Inl e, tr) \<Rightarrow> handler_catch e tr))"

text \<open>
  The trace of a waiting invocation when it reaches the loop: the handler has logged its
  start, posted the payload, received the identifier \<open>websetId\<close> and logged that it
  waits.
\<close>

definition polling_start :: "args \<Rightarrow> string \<Rightarrow> trace" where
  "polling_start a websetId =
     [LogStart (''Query: '' @ query a @ '', Wait: '' @ string_of_bool (waitForCompletion a)),
      LogLog ''Sending request to create WebSet...'',
      HttpPost createUrl (websetParams a),
      LogLog (''WebSet created with ID: '' @ websetId),
      LogLog (''Waiting for WebSet '' @ websetId @ '' completion...'')]"

text \<open>
  What a waiting invocation returns once it stands at the head of the iteration
  \<open>attempt\<close> with the trace \<open>tr\<close>: the rest of the loop, the code after the loop and
  the outer \<open>catch\<close>. The handler itself is \<open>handler_from\<close> at attempt 1 (lemma
  \<open>handler_waiting\<close> below).
\<close>

definition handler_from ::
  "(json \<Rightarrow> string) \<Rightarrow> remote \<Rightarrow> string \<Rightarrow> nat \<Rightarrow> trace \<Rightarrow> outcome \<times> trace" where
  "handler_from stringify r websetId attempt tr =
     (case poll_loop stringify r websetId attempt tr of
        (Inl e, tr3) \<Rightarrow> handler_catch e tr3
      | (Inr (Some out), tr3) \<Rightarrow> (out, tr3)
      | (Inr None, tr3) \<Rightarrow>
          handler_catch (Error ''WebSet research timed out.'')
            (tr3 @ [LogError (''WebSet '' @ websetId
                              @ '' did not complete within the timeout period.'')]))"

text \<open>
  Projections of a trace: the POST requests, and the requests together with the sleeps
  (everything but the log lines).
\<close>

fun is_post :: "event \<Rightarrow> bool" where
  "is_post (HttpPost u b) = True"
| "is_post _ = False"

fun is_log :: "event \<Rightarrow> bool" where
  "is_log (HttpPost u b) = False"
| "is_log (HttpGet u) = False"
| "is_log (Sleep ms) = False"
| "is_log _ = True"

definition posts :: "trace \<Rightarrow> trace" where
  "posts tr = filter is_post tr"

definition actions :: "trace \<Rightarrow> trace" where
  "actions tr = filter (\<lambda>e. \<not> is_log e) tr"

text \<open>The value under a key of a JSON object.\<close>

definition get_field :: "string \<Rightarrow> json \<Rightarrow> json option" where
  "get_field k j = (case j of JObj kvs \<Rightarrow> map_of kvs k | _ \<Rightarrow> None)"

subsection \<open>Example inputs\<close>

text \<open>
  A stand-in for \<open>JSON.stringify\<close> on the examples, a request that gives only the
  query, and remote services with fixed answers.
\<close>

fun json_tag :: "json \<Rightarrow> string" where
  "json_tag JNull = ''null''"
| "json_tag (JBool b) = string_of_bool b"
| "json_tag (JNum n) = ''<number>''"
| "json_tag (JStr s) = s"
| "json_tag (JArr xs) = ''<array>''"
| "json_tag (JObj kvs) = ''<object>''"

definition query_only :: args where
  "query_only =
     \<lparr>query = ''ai startups'', count = None, criteria = None, entityType = None,
      enrichments = None, metadata = None, waitForCompletion = True\<rparr>"

definition no_items :: json where
  "no_items = JObj [(''items'', JArr [])]"

definition remote_running :: remote where
  "remote_running =
     \<lparr>post_reply = Inr ''ws_1'',
      status_reply = (\<lambda>n. Inr ''running''),
      items_reply = (\<lambda>n. Inr no_items)\<rparr>"

definition remote_completes :: remote where
  "remote_completes =
     \<lparr>post_reply = Inr ''ws_1'',
      status_reply = (\<lambda>n. if n < 2 then Inr ''running'' else Inr ''completed''),
      items_reply = (\<lambda>n. Inr no_items)\<rparr>"

definition remote_failed :: remote where
  "remote_failed =
     \<lparr>post_reply = Inr ''ws_1'',
      status_reply = (\<lambda>n. Inr ''failed''),
      items_reply = (\<lambda>n. Inr no_items)\<rparr>"

definition remote_failed_then_completed :: remote where
  "remote_failed_then_completed =
     \<lparr>post_reply = Inr ''ws_1'',
      status_reply = (\<lambda>n. if n = 0 then Inr ''failed'' else Inr ''completed''),
      items_reply = (\<lambda>n. Inr no_items)\<rparr>"

definition remote_down :: remote where
  "remote_down =
     \<lparr>post_reply = Inr ''ws_1'',
      status_reply = (\<lambda>n. Inl (AxiosError ''Network Error'' None)),
      items_reply = (\<lambda>n. Inr no_items)\<rparr>"

definition remote_items_down :: remote where
  "remote_items_down =
     \<lparr>post_reply = Inr ''ws_1'',
      status_reply = (\<lambda>n. Inr ''completed''),
      items_reply = (\<lambda>n. Inl (AxiosError ''Network Error'' None))\<rparr>"

section \<open>Properties\<close>

subsection \<open>Auxiliary facts\<close>

lemma statusUrl_neq_itemsUrl [simp]: "statusUrl w \<noteq> itemsUrl w"
  by (simp add: statusUrl_def itemsUrl_def)

lemma itemsUrl_neq_statusUrl [simp]: "itemsUrl w \<noteq> statusUrl w"
  by (simp add: statusUrl_def itemsUrl_def)

lemma string_of_nat_12: "string_of_nat 12 = ''12''"
  by code_simp

lemma actions_append [simp]: "actions (xs @ ys) = actions xs @ actions ys"
  by (simp add: actions_def)

lemma actions_simps [simp]:
  "actions [] = []"
  "actions (HttpPost u b # xs) = HttpPost u b # actions xs"
  "actions (HttpGet u # xs) = HttpGet u # actions xs"
  "actions (Sleep n # xs) = Sleep n # actions xs"
  "actions (LogStart m # xs) = actions xs"
  "actions (LogLog m # xs) = actions xs"
  "actions (LogError m # xs) = actions xs"
  "actions (LogErrorObj e # xs) = actions xs"
  "actions (LogComplete # xs) = actions xs"
  by (simp_all add: actions_def)

lemma posts_append [simp]: "posts (xs @ ys) = posts xs @ posts ys"
  by (simp add: posts_def)

lemma posts_simps [simp]:
  "posts [] = []"
  "posts (HttpPost u b # xs) = HttpPost u b # posts xs"
  "posts (HttpGet u # xs) = posts xs"
  "posts (Sleep n # xs) = posts xs"
  "posts (LogStart m # xs) = posts xs"
  "posts (LogLog m # xs) = posts xs"
  "posts (LogError m # xs) = posts xs"
  "posts (LogErrorObj e # xs) = posts xs"
  "posts (LogComplete # xs) = posts xs"
  by (simp_all add: posts_def)

lemma polling_start_counts [simp]:
  "count_list (polling_start a w) (HttpGet u) = 0"
  by (simp add: polling_start_def)

lemma actions_polling_start [simp]:
  "actions (polling_start a w) = [HttpPost ''/websets/v0/websets/'' (websetParams a)]"
  by (simp add: polling_start_def createUrl_def)

text \<open>One attempt, by what the status endpoint (and then the items endpoint) answers.\<close>

lemma poll_try_transport:
  "status_reply r (count_list tr (HttpGet (statusUrl w))) = Inl e \<Longrightarrow>
   poll_try s r w attempt tr = (Inl e, tr @ [HttpGet (statusUrl w)])"
  by (simp add: poll_try_def)

lemma poll_try_pending:
  "status_reply r (count_list tr (HttpGet (statusUrl w))) = Inr st \<Longrightarrow>
   st \<noteq> ''completed'' \<Longrightarrow> st \<noteq> ''idle'' \<Longrightarrow> st \<noteq> ''failed'' \<Longrightarrow> st \<noteq> ''error'' \<Longrightarrow>
   poll_try s r w attempt tr =
     (Inr None, tr @ [HttpGet (statusUrl w),
                      LogLog (''Attempt '' @ string_of_nat attempt @ '': WebSet status is ''
                              @ [CHR 0x27] @ st @ [CHR 0x27]),
                      Sleep 5000])"
  by (simp add: poll_try_def pollInterval_def)

lemma poll_try_failed:
  "status_reply r (count_list tr (HttpGet (statusUrl w))) = Inr st \<Longrightarrow>
   st = ''failed'' \<or> st = ''error'' \<Longrightarrow>
   poll_try s r w attempt tr =
     (Inl (Error (''WebSet research failed with status: '' @ st)),
      tr @ [HttpGet (statusUrl w),
            LogLog (''Attempt '' @ string_of_nat attempt @ '': WebSet status is ''
                    @ [CHR 0x27] @ st @ [CHR 0x27]),
            LogError (''WebSet '' @ w @ '' failed with status: '' @ st)])"
  by (auto simp add: poll_try_def)

lemma poll_try_items_ok:
  "status_reply r (count_list tr (HttpGet (statusUrl w))) = Inr st \<Longrightarrow>
   st = ''completed'' \<or> st = ''idle'' \<Longrightarrow>
   items_reply r (count_list tr (HttpGet (itemsUrl w))) = Inr d \<Longrightarrow>
   poll_try s r w attempt tr =
     (Inr (Some \<lparr>content = [\<lparr>ctype = ''text'', ctext = s d\<rparr>], isError = None\<rparr>),
      tr @ [HttpGet (statusUrl w),
            LogLog (''Attempt '' @ string_of_nat attempt @ '': WebSet status is ''
                    @ [CHR 0x27] @ st @ [CHR 0x27]),
            LogLog (''WebSet '' @ w @ '' completed. Fetching items...''),
            HttpGet (itemsUrl w),
            LogComplete])"
  by (auto simp add: poll_try_def)

lemma poll_try_items_fail:
  "status_reply r (count_list tr (HttpGet (statusUrl w))) = Inr st \<Longrightarrow>
   st = ''completed'' \<or> st = ''idle'' \<Longrightarrow>
   items_reply r (count_list tr (HttpGet (itemsUrl w))) = Inl e \<Longrightarrow>
   poll_try s r w attempt tr =
     (Inl e,
      tr @ [HttpGet (statusUrl w),
            LogLog (''Attempt '' @ string_of_nat attempt @ '': WebSet status is ''
                    @ [CHR 0x27] @ st @ [CHR 0x27]),
            LogLog (''WebSet '' @ w @ '' completed. Fetching items...''),
            HttpGet (itemsUrl w)])"
  by (auto simp add: poll_try_def)

text \<open>One iteration of the loop, by how its attempt ends.\<close>

lemma poll_loop_return:
  "attempt \<le> 12 \<Longrightarrow> poll_try s r w attempt tr = (Inr (Some out), tr1) \<Longrightarrow>
   poll_loop s r w attempt tr = (Inr (Some out), tr1)"
  by (simp add: poll_loop.simps maxAttempts_def)

lemma poll_loop_next:
  "attempt \<le> 12 \<Longrightarrow> poll_try s r w attempt tr = (Inr None, tr1) \<Longrightarrow>
   poll_loop s r w attempt tr = poll_loop s r w (attempt + 1) tr1"
  by (subst poll_loop.simps) (simp add: maxAttempts_def)

lemma poll_loop_catch:
  "attempt < 12 \<Longrightarrow> poll_try s r w attempt tr = (Inl e, tr1) \<Longrightarrow>
   poll_loop s r w attempt tr =
     poll_loop s r w (attempt + 1)
       (tr1 @ [LogError (''Polling attempt '' @ string_of_nat attempt @ '' failed: '' @ message e),
               Sleep 5000])"
  by (subst poll_loop.simps) (simp add: maxAttempts_def pollInterval_def)

lemma poll_loop_last:
  "poll_try s r w 12 tr = (Inl e, tr1) \<Longrightarrow>
   poll_loop s r w 12 tr =
     (Inl (Error ''Failed to get WebSet status after 12 attempts.''),
      tr1 @ [LogError (''Polling attempt 12 failed: '' @ message e)])"
  by (subst poll_loop.simps) (simp add: maxAttempts_def string_of_nat_12)

lemma poll_loop_exit:
  "12 < attempt \<Longrightarrow> poll_loop s r w attempt tr = (Inr None, tr)"
  by (subst poll_loop.simps) (simp add: maxAttempts_def)

text \<open>A waiting invocation with a credential is \<open>handler_from\<close> at the first attempt.\<close>

lemma handler_waiting:
  assumes "k \<noteq> []" and "waitForCompletion a" and "post_reply r = Inr w"
  shows "handler s (Some k) r a = handler_from s r w 1 (polling_start a w)"
  using assms
  by (simp add: handler_def handler_try_def handler_from_def polling_start_def truthy_string_def
        split: prod.splits sum.splits option.splits)

text \<open>The loop sends no POST request.\<close>

lemma posts_poll_try: "posts (snd (poll_try s r w attempt tr)) = posts tr"
  by (simp add: poll_try_def Let_def split: sum.splits)

lemma posts_poll_loop: "posts (snd (poll_loop s r w attempt tr)) = posts tr"
proof (induction s r w attempt tr rule: poll_loop.induct)
  case (1 s r w attempt tr)
  obtain x tr1 where pt: "poll_try s r w attempt tr = (x, tr1)"
    by (cases "poll_try s r w attempt tr")
  have p1: "posts tr1 = posts tr"
    using posts_poll_try [of s r w attempt tr] pt by simp
  show ?case
  proof (cases "attempt \<le> maxAttempts")
    case False
    then show ?thesis by (subst poll_loop.simps) simp
  next
    case True
    show ?thesis
    proof (cases x)
      case (Inl e)
      show ?thesis
      proof (cases "attempt = maxAttempts")
        case True
        then show ?thesis
          using \<open>attempt \<le> maxAttempts\<close> pt p1 Inl
          by (subst poll_loop.simps) (simp add: Let_def)
      next
        case False
        then show ?thesis
          using "1.IH"(1) \<open>attempt \<le> maxAttempts\<close> pt p1 Inl
          by (subst poll_loop.simps) (simp add: Let_def)
      qed
    next
      case (Inr y)
      show ?thesis
      proof (cases y)
        case None
        then show ?thesis
          using "1.IH"(2) \<open>attempt \<le> maxAttempts\<close> pt p1 Inr
          by (subst poll_loop.simps) simp
      next
        case (Some out)
        then show ?thesis
          using \<open>attempt \<le> maxAttempts\<close> pt p1 Inr
          by (subst poll_loop.simps) simp
      qed
    qed
  qed
qed

text \<open>The loop when the job keeps running: twelve attempts, each followed by the sleep.\<close>

lemma poll_loop_running:
  assumes run: "\<forall>n<12. status_reply r n = Inr ''running''"
  shows "attempt \<le> 13 \<Longrightarrow> count_list tr (HttpGet (statusUrl w)) + 1 = attempt \<Longrightarrow>
         fst (poll_loop s r w attempt tr) = Inr None \<and>
         actions (snd (poll_loop s r w attempt tr)) =
           actions tr @ concat (replicate (13 - attempt) [HttpGet (statusUrl w), Sleep 5000])"
proof (induction "13 - attempt" arbitrary: attempt tr)
  case 0
  then have "12 < attempt" by simp
  then show ?case using 0 by (simp add: poll_loop_exit)
next
  case (Suc k)
  then have le: "attempt \<le> 12" by simp
  let ?n = "count_list tr (HttpGet (statusUrl w))"
  have "?n < 12" using Suc.prems le by simp
  then have st: "status_reply r ?n = Inr ''running''" using run by simp
  let ?tr1 = "tr @ [HttpGet (statusUrl w),
                      LogLog (''Attempt '' @ string_of_nat attempt @ '': WebSet status is ''
                              @ [CHR 0x27] @ ''running'' @ [CHR 0x27]),
                      Sleep 5000]"
  have pt: "poll_try s r w attempt tr = (Inr None, ?tr1)"
    using poll_try_pending [OF st] by simp
  have step: "poll_loop s r w attempt tr = poll_loop s r w (attempt + 1) ?tr1"
    using poll_loop_next [OF le pt] .
  have k: "k = 13 - (attempt + 1)" using Suc.hyps(2) by simp
  have cnt: "count_list ?tr1 (HttpGet (statusUrl w)) + 1 = attempt + 1"
    using Suc.prems by simp
  have ih: "fst (poll_loop s r w (attempt + 1) ?tr1) = Inr None \<and>
         actions (snd (poll_loop s r w (attempt + 1) ?tr1)) =
           actions ?tr1 @ concat (replicate (13 - (attempt + 1)) [HttpGet (statusUrl w), Sleep 5000])"
    using Suc.hyps(1) [OF k _ cnt] le by simp
  have rep: "13 - attempt = Suc (13 - (attempt + 1))" using le by simp
  show ?case unfolding step using ih by (simp add: rep)
qed

text \<open>
  The loop when every attempt throws inside its \<open>try\<close>, because the status call fails or
  because the status is failed or error: the sleep follows each attempt but the last.
\<close>

lemma poll_try_throwing:
  assumes "(\<exists>e. status_reply r (count_list tr (HttpGet (statusUrl w))) = Inl e)
           \<or> status_reply r (count_list tr (HttpGet (statusUrl w))) = Inr ''failed''
           \<or> status_reply r (count_list tr (HttpGet (statusUrl w))) = Inr ''error''"
  shows "\<exists>e tr1. poll_try s r w attempt tr = (Inl e, tr1)
           \<and> actions tr1 = actions tr @ [HttpGet (statusUrl w)]
           \<and> count_list tr1 (HttpGet (statusUrl w)) = count_list tr (HttpGet (statusUrl w)) + 1"
  using assms
proof (elim disjE exE)
  fix e assume "status_reply r (count_list tr (HttpGet (statusUrl w))) = Inl e"
  then show ?thesis by (simp add: poll_try_transport)
next
  assume a: "status_reply r (count_list tr (HttpGet (statusUrl w))) = Inr ''failed''"
  show ?thesis by (simp add: poll_try_failed [OF a])
next
  assume a: "status_reply r (count_list tr (HttpGet (statusUrl w))) = Inr ''error''"
  show ?thesis by (simp add: poll_try_failed [OF a])
qed

lemma poll_loop_throwing:
  assumes thr: "\<forall>n<12. (\<exists>e. status_reply r n = Inl e) \<or> status_reply r n = Inr ''failed''
                         \<or> status_reply r n = Inr ''error''"
  shows "attempt \<le> 12 \<Longrightarrow> count_list tr (HttpGet (statusUrl w)) + 1 = attempt \<Longrightarrow>
         fst (poll_loop s r w attempt tr)
           = Inl (Error ''Failed to get WebSet status after 12 attempts.'') \<and>
         actions (snd (poll_loop s r w attempt tr)) =
           actions tr @ concat (replicate (12 - attempt) [HttpGet (statusUrl w), Sleep 5000])
             @ [HttpGet (statusUrl w)]"
proof (induction "12 - attempt" arbitrary: attempt tr)
  case 0
  then have a12: "attempt = 12" by simp
  have "count_list tr (HttpGet (statusUrl w)) < 12" using 0 by simp
  then obtain e tr1 where pt: "poll_try s r w attempt tr = (Inl e, tr1)"
      and act: "actions tr1 = actions tr @ [HttpGet (statusUrl w)]"
    using poll_try_throwing [of r tr w s attempt] thr by blast
  show ?case using poll_loop_last [OF pt [unfolded a12]] act by (simp add: a12)
next
  case (Suc k)
  then have lt: "attempt < 12" by simp
  have "count_list tr (HttpGet (statusUrl w)) < 12" using Suc.prems by simp
  then obtain e tr1 where pt: "poll_try s r w attempt tr = (Inl e, tr1)"
      and act: "actions tr1 = actions tr @ [HttpGet (statusUrl w)]"
      and cnt: "count_list tr1 (HttpGet (statusUrl w)) = count_list tr (HttpGet (statusUrl w)) + 1"
    using poll_try_throwing [of r tr w s attempt] thr by blast
  let ?tr2 = "tr1 @ [LogError (''Polling attempt '' @ string_of_nat attempt @ '' failed: '' @ message e),
               Sleep 5000]"
  have step: "poll_loop s r w attempt tr = poll_loop s r w (attempt + 1) ?tr2"
    using poll_loop_catch [OF lt pt] .
  have k: "k = 12 - (attempt + 1)" using Suc.hyps(2) by simp
  have cnt2: "count_list ?tr2 (HttpGet (statusUrl w)) + 1 = attempt + 1"
    using Suc.prems cnt by simp
  have ih: "fst (poll_loop s r w (attempt + 1) ?tr2)
           = Inl (Error ''Failed to get WebSet status after 12 attempts.'') \<and>
         actions (snd (poll_loop s r w (attempt + 1) ?tr2)) =
           actions ?tr2 @ concat (replicate (12 - (attempt + 1)) [HttpGet (statusUrl w), Sleep 5000])
             @ [HttpGet (statusUrl w)]"
    using Suc.hyps(1) [OF k _ cnt2] lt by simp
  have rep: "12 - attempt = Suc (12 - (attempt + 1))" using lt by simp
  show ?case unfolding step using ih act by (simp add: rep)
qed

text \<open>The outer \<open>catch\<close> on a plain \<open>Error\<close>.\<close>

lemma handler_catch_Error:
  "handler_catch (Error m) tr = (error_outcome (''WebSet operation failed: '' @ m), tr @ [LogErrorObj (Error m)])"
  by (simp add: handler_catch_def)

lemma string_of_nat_1: "string_of_nat 1 = ''1''"
  by code_simp

text \<open>Whatever the remote answers, an invocation with a credential posts once, the payload.\<close>

lemma posts_handler_catch: "posts (snd (handler_catch e tr)) = posts tr"
  by (cases e) (simp_all add: handler_catch_def)

lemma posts_handler:
  assumes "k \<noteq> []"
  shows "posts (snd (handler s (Some k) r a)) = [HttpPost ''/websets/v0/websets/'' (websetParams a)]"
proof (cases "post_reply r")
  case (Inl e)
  then show ?thesis
    using assms
    by (simp add: handler_def handler_try_def truthy_string_def posts_handler_catch createUrl_def)
next
  case (Inr w)
  show ?thesis
  proof (cases "waitForCompletion a")
    case False
    then show ?thesis
      using assms Inr
      by (simp add: handler_def handler_try_def truthy_string_def createUrl_def)
  next
    case True
    obtain x tr3 where p: "poll_loop s r w 1 (polling_start a w) = (x, tr3)"
      by (cases "poll_loop s r w 1 (polling_start a w)")
    have "posts tr3 = posts (polling_start a w)"
      using posts_poll_loop [of s r w 1 "polling_start a w"] p by simp
    then have tr3: "posts tr3 = [HttpPost ''/websets/v0/websets/'' (websetParams a)]"
      by (simp add: polling_start_def createUrl_def)
    show ?thesis
      unfolding handler_waiting [OF assms True Inr] handler_from_def p
      using tr3 by (simp add: posts_handler_catch split: sum.splits option.splits)
  qed
qed

text \<open>Each spread adds at most its own key.\<close>

lemma spread_keys:
  "spread_criteria c = [] \<or> (\<exists>v. spread_criteria c = [(''criteria'', v)])"
  "spread_entity t = [] \<or> (\<exists>v. spread_entity t = [(''entity'', v)])"
  "spread_enrichments es = [] \<or> (\<exists>v. spread_enrichments es = [(''enrichments'', v)])"
  "spread_metadata m = [] \<or> (\<exists>v. spread_metadata m = [(''metadata'', v)])"
  by (simp_all add: spread_criteria_def spread_entity_def spread_enrichments_def
        spread_metadata_def split: option.splits)

subsection \<open>The claims\<close>

text \<open>
  C2. When the credential \<open>EXA_API_KEY\<close> is absent or empty, the handler returns the
  configuration error and does nothing else to the outside: the trace holds no HTTP
  request of any kind (and no sleep), only log lines.
\<close>

theorem missing_credential_no_request:
  assumes "env_key = None \<or> env_key = Some []"
  shows "fst (handler s env_key r a)
           = \<lparr>content = [\<lparr>ctype = ''text'', ctext = ''Configuration error: EXA_API_KEY is missing.''\<rparr>],
              isError = Some True\<rparr> \<and>
         actions (snd (handler s env_key r a)) = []"
  using assms by (auto simp: handler_def truthy_string_def error_outcome_def)

theorem missing_credential_no_request_witness:
  "fst (handler json_tag None remote_running query_only)
     = \<lparr>content = [\<lparr>ctype = ''text'', ctext = ''Configuration error: EXA_API_KEY is missing.''\<rparr>],
        isError = Some True\<rparr> \<and>
   actions (snd (handler json_tag None remote_running query_only)) = [] \<and>
   fst (handler json_tag (Some []) remote_running query_only)
     = \<lparr>content = [\<lparr>ctype = ''text'', ctext = ''Configuration error: EXA_API_KEY is missing.''\<rparr>],
        isError = Some True\<rparr> \<and>
   actions (snd (handler json_tag (Some []) remote_running query_only)) = []"
  using missing_credential_no_request [of None json_tag remote_running query_only]
        missing_credential_no_request [of "Some []" json_tag remote_running query_only]
  by simp

text \<open>
  C3. When only the query is given (count, criteria, entityType, enrichments and metadata
  absent, whatever the wait flag), the payload is exactly the object with the one key
  \<open>search\<close>, whose value has the one key \<open>query\<close>; and this payload is the body of the
  one POST request the handler sends.
\<close>

theorem query_only_payload:
  assumes "count a = None" and "criteria a = None" and "entityType a = None"
    and "enrichments a = None" and "metadata a = None" and "k \<noteq> []"
  shows "websetParams a = JObj [(''search'', JObj [(''query'', JStr (query a))])] \<and>
         posts (snd (handler s (Some k) r a))
           = [HttpPost ''/websets/v0/websets/''
                (JObj [(''search'', JObj [(''query'', JStr (query a))])])]"
proof -
  have p: "websetParams a = JObj [(''search'', JObj [(''query'', JStr (query a))])]"
    using assms(1-5)
    by (simp add: websetParams_def spread_count_def spread_criteria_def spread_entity_def
          spread_enrichments_def spread_metadata_def)
  show ?thesis using posts_handler [OF assms(6), of s r a] p by simp
qed

theorem query_only_payload_witness:
  "websetParams query_only = JObj [(''search'', JObj [(''query'', JStr ''ai startups'')])] \<and>
   posts (snd (handler json_tag (Some ''key'') remote_running query_only))
     = [HttpPost ''/websets/v0/websets/''
          (JObj [(''search'', JObj [(''query'', JStr ''ai startups'')])])]"
  using query_only_payload [of query_only "''key''" json_tag remote_running]
  by (simp add: query_only_def)

text \<open>
  C4. With \<open>waitForCompletion = false\<close> and a successful creation call, the handler
  returns the text of the object \<open>{message, websetId, status: "running"}\<close> without an
  error mark, and the POST is its only request: no status call, no items call, no sleep.
\<close>

theorem no_wait_returns_running:
  assumes "k \<noteq> []" and "\<not> waitForCompletion a" and "post_reply r = Inr w"
  shows "fst (handler s (Some k) r a)
           = \<lparr>content = [\<lparr>ctype = ''text'',
                           ctext = s (JObj [(''message'', JStr ''WebSet research initiated successfully.''),
                                            (''websetId'', JStr w),
                                            (''status'', JStr ''running'')])\<rparr>],
              isError = None\<rparr> \<and>
         actions (snd (handler s (Some k) r a))
           = [HttpPost ''/websets/v0/websets/'' (websetParams a)]"
  using assms
  by (simp add: handler_def handler_try_def truthy_string_def createUrl_def)

theorem no_wait_returns_running_witness:
  "fst (handler json_tag (Some ''key'') remote_running (query_only\<lparr>waitForCompletion := False\<rparr>))
     = \<lparr>content = [\<lparr>ctype = ''text'', ctext = ''<object>''\<rparr>], isError = None\<rparr> \<and>
   actions (snd (handler json_tag (Some ''key'') remote_running
                   (query_only\<lparr>waitForCompletion := False\<rparr>)))
     = [HttpPost ''/websets/v0/websets/'' (websetParams (query_only\<lparr>waitForCompletion := False\<rparr>))]"
  using no_wait_returns_running
          [of "''key''" "query_only\<lparr>waitForCompletion := False\<rparr>" remote_running "''ws_1''" json_tag]
  by (simp add: remote_running_def)

text \<open>
  C9. Presence of an optional field is decided by truthiness, not by the field being
  supplied. A supplied count of 0, an empty criteria and an empty entityType give the
  same payload as the absent field. A supplied count other than 0 (a negative one too)
  is sent under \<open>search.count\<close>, a supplied count of 0 leaves \<open>search\<close> with the query
  alone; a supplied criteria is sent under \<open>criteria\<close> exactly when it is not the empty
  string, and a supplied entityType under \<open>entity.type\<close> exactly when it is not the
  empty string.
\<close>

theorem optionals_decided_by_truthiness:
  "websetParams (a\<lparr>count := Some (Finite 0)\<rparr>) = websetParams (a\<lparr>count := None\<rparr>) \<and>
   websetParams (a\<lparr>criteria := Some ''''\<rparr>) = websetParams (a\<lparr>criteria := None\<rparr>) \<and>
   websetParams (a\<lparr>entityType := Some ''''\<rparr>) = websetParams (a\<lparr>entityType := None\<rparr>) \<and>
   get_field ''search'' (websetParams (a\<lparr>count := Some (Finite q)\<rparr>))
     = Some (JObj ((''query'', JStr (query a))
                   # (if q = 0 then [] else [(''count'', JNum (Finite q))]))) \<and>
   get_field ''criteria'' (websetParams (a\<lparr>criteria := Some c\<rparr>))
     = (if c = '''' then None else Some (JStr c)) \<and>
   get_field ''entity'' (websetParams (a\<lparr>entityType := Some t\<rparr>))
     = (if t = '''' then None else Some (JObj [(''type'', JStr t)]))"
proof -
  have falsy:
    "websetParams (a\<lparr>count := Some (Finite 0)\<rparr>) = websetParams (a\<lparr>count := None\<rparr>)"
    "websetParams (a\<lparr>criteria := Some ''''\<rparr>) = websetParams (a\<lparr>criteria := None\<rparr>)"
    "websetParams (a\<lparr>entityType := Some ''''\<rparr>) = websetParams (a\<lparr>entityType := None\<rparr>)"
    by (simp_all add: websetParams_def spread_count_def spread_criteria_def spread_entity_def
          truthy_string_def)
  have cnt: "get_field ''search'' (websetParams (a\<lparr>count := Some (Finite q)\<rparr>))
     = Some (JObj ((''query'', JStr (query a))
                   # (if q = 0 then [] else [(''count'', JNum (Finite q))])))"
    by (simp add: get_field_def websetParams_def spread_count_def)
  have crit: "get_field ''criteria'' (websetParams (a\<lparr>criteria := Some c\<rparr>))
     = (if c = '''' then None else Some (JStr c))"
    using spread_keys(2) [of "entityType a"] spread_keys(3) [of "enrichments a"]
          spread_keys(4) [of "metadata a"]
    by (auto simp: get_field_def websetParams_def spread_criteria_def truthy_string_def)
  have ent: "get_field ''entity'' (websetParams (a\<lparr>entityType := Some t\<rparr>))
     = (if t = '''' then None else Some (JObj [(''type'', JStr t)]))"
    using spread_keys(1) [of "criteria a"] spread_keys(3) [of "enrichments a"]
          spread_keys(4) [of "metadata a"]
    by (auto simp: get_field_def websetParams_def spread_entity_def truthy_string_def)
  show ?thesis using falsy cnt crit ent by simp
qed

theorem optionals_decided_by_truthiness_witness:
  "websetParams (query_only\<lparr>count := Some (Finite 0)\<rparr>)
     = websetParams (query_only\<lparr>count := None\<rparr>) \<and>
   get_field ''search'' (websetParams (query_only\<lparr>count := Some (Finite (- 3))\<rparr>))
     = Some (JObj [(''query'', JStr ''ai startups''), (''count'', JNum (Finite (- 3)))]) \<and>
   get_field ''criteria'' (websetParams (query_only\<lparr>criteria := Some ''has funding''\<rparr>))
     = Some (JStr ''has funding'') \<and>
   get_field ''entity'' (websetParams (query_only\<lparr>entityType := Some ''company''\<rparr>))
     = Some (JObj [(''type'', JStr ''company'')])"
  using optionals_decided_by_truthiness [of query_only "- 3" "''has funding''" "''company''"]
  by (simp add: query_only_def)

text \<open>
  C5. A waiting invocation whose status answers are running, running, completed polls
  three times (sleeping after each of the first two), then calls the items endpoint once
  and returns the text of the items payload, without an error mark.
\<close>

theorem running_running_completed:
  assumes "k \<noteq> []" and "waitForCompletion a" and "post_reply r = Inr w"
    and "status_reply r 0 = Inr ''running''"
    and "status_reply r 1 = Inr ''running''"
    and "status_reply r 2 = Inr ''completed''"
    and "items_reply r 0 = Inr d"
  shows "fst (handler s (Some k) r a)
           = \<lparr>content = [\<lparr>ctype = ''text'', ctext = s d\<rparr>], isError = None\<rparr> \<and>
         actions (snd (handler s (Some k) r a))
           = [HttpPost ''/websets/v0/websets/'' (websetParams a),
              HttpGet (statusUrl w), Sleep 5000,
              HttpGet (statusUrl w), Sleep 5000,
              HttpGet (statusUrl w), HttpGet (itemsUrl w)]"
proof -
  have h: "handler s (Some k) r a = handler_from s r w 1 (polling_start a w)"
    using assms(1-3) by (rule handler_waiting)
  let ?t0 = "polling_start a w"
  obtain t1 where p1: "poll_try s r w 1 ?t0 = (Inr None, t1)"
    and a1: "actions t1 = actions ?t0 @ [HttpGet (statusUrl w), Sleep 5000]"
    and c1: "count_list t1 (HttpGet (statusUrl w)) = 1" and i1: "count_list t1 (HttpGet (itemsUrl w)) = 0"
    using poll_try_pending [of r ?t0 w "''running''" s 1] assms(4) by simp
  obtain t2 where p2: "poll_try s r w (1 + 1) t1 = (Inr None, t2)"
    and a2: "actions t2 = actions t1 @ [HttpGet (statusUrl w), Sleep 5000]"
    and c2: "count_list t2 (HttpGet (statusUrl w)) = 2" and i2: "count_list t2 (HttpGet (itemsUrl w)) = 0"
    using poll_try_pending [of r t1 w "''running''" s "1 + 1"] assms(5) c1 i1 by simp
  obtain t3 where p3: "poll_try s r w (1 + 1 + 1) t2
        = (Inr (Some \<lparr>content = [\<lparr>ctype = ''text'', ctext = s d\<rparr>], isError = None\<rparr>), t3)"
    and a3: "actions t3 = actions t2 @ [HttpGet (statusUrl w), HttpGet (itemsUrl w)]"
    using poll_try_items_ok [of r t2 w "''completed''" d s "1 + 1 + 1"] assms(6,7) c2 i2 by simp
  have "poll_loop s r w 1 ?t0 = poll_loop s r w (1 + 1) t1"
    by (rule poll_loop_next [OF _ p1]) simp
  also have "\<dots> = poll_loop s r w (1 + 1 + 1) t2"
    by (rule poll_loop_next [OF _ p2]) simp
  also have "\<dots> = (Inr (Some \<lparr>content = [\<lparr>ctype = ''text'', ctext = s d\<rparr>], isError = None\<rparr>), t3)"
    by (rule poll_loop_return [OF _ p3]) simp
  finally show ?thesis
    unfolding h handler_from_def by (simp add: a1 a2 a3)
qed


theorem running_running_completed_witness:
  "fst (handler json_tag (Some ''key'') remote_completes query_only)
     = \<lparr>content = [\<lparr>ctype = ''text'', ctext = ''<object>''\<rparr>], isError = None\<rparr> \<and>
   actions (snd (handler json_tag (Some ''key'') remote_completes query_only))
     = [HttpPost ''/websets/v0/websets/'' (websetParams query_only),
        HttpGet (statusUrl ''ws_1''), Sleep 5000,
        HttpGet (statusUrl ''ws_1''), Sleep 5000,
        HttpGet (statusUrl ''ws_1''), HttpGet (itemsUrl ''ws_1'')]"
  using running_running_completed
          [of "''key''" query_only remote_completes "''ws_1''" no_items json_tag]
  by (simp add: remote_completes_def query_only_def no_items_def)

text \<open>
  C6. A waiting invocation whose first twelve status answers are all running polls exactly
  twelve times, sleeps 5000 ms after every poll (so between any two consecutive polls),
  never calls the items endpoint, and returns the timeout error.
\<close>

theorem always_running_times_out:
  assumes "k \<noteq> []" and "waitForCompletion a" and "post_reply r = Inr w"
    and run: "\<forall>n<12. status_reply r n = Inr ''running''"
  shows "fst (handler s (Some k) r a)
           = error_outcome ''WebSet operation failed: WebSet research timed out.'' \<and>
         actions (snd (handler s (Some k) r a))
           = HttpPost ''/websets/v0/websets/'' (websetParams a)
             # concat (replicate 12 [HttpGet (statusUrl w), Sleep 5000])"
proof -
  have h: "handler s (Some k) r a = handler_from s r w 1 (polling_start a w)"
    using assms(1-3) by (rule handler_waiting)
  have l: "fst (poll_loop s r w 1 (polling_start a w)) = Inr None \<and>
         actions (snd (poll_loop s r w 1 (polling_start a w))) =
           actions (polling_start a w) @ concat (replicate (13 - 1) [HttpGet (statusUrl w), Sleep 5000])"
    using poll_loop_running [OF run, of 1 "polling_start a w" w s] by simp
  obtain x tr3 where p: "poll_loop s r w 1 (polling_start a w) = (x, tr3)"
    by (cases "poll_loop s r w 1 (polling_start a w)")
  show ?thesis
    using l unfolding h handler_from_def p
    by (simp add: handler_catch_Error)
qed


theorem always_running_times_out_witness:
  "fst (handler json_tag (Some ''key'') remote_running query_only)
     = error_outcome ''WebSet operation failed: WebSet research timed out.'' \<and>
   actions (snd (handler json_tag (Some ''key'') remote_running query_only))
     = HttpPost ''/websets/v0/websets/'' (websetParams query_only)
       # concat (replicate 12 [HttpGet (statusUrl ''ws_1''), Sleep 5000])"
  using always_running_times_out [of "''key''" query_only remote_running "''ws_1''" json_tag]
  by (simp add: remote_running_def query_only_def)

text \<open>
  C7. When the status call of attempt \<open>k\<close> fails at the transport level: for
  \<open>k < 12\<close> the handler logs the error, sleeps 5000 ms and goes on with attempt
  \<open>k + 1\<close>; for \<open>k = 12\<close> it logs the error and returns, without a sleep, the failure
  "Failed to get WebSet status after 12 attempts.".
\<close>

theorem status_call_failure_retried:
  assumes "status_reply r (count_list tr (HttpGet (statusUrl w))) = Inl e"
  shows "(attempt < 12 \<longrightarrow>
            handler_from s r w attempt tr
              = handler_from s r w (attempt + 1)
                  (tr @ [HttpGet (statusUrl w),
                         LogError (''Polling attempt '' @ string_of_nat attempt @ '' failed: ''
                                   @ message e),
                         Sleep 5000])) \<and>
         (attempt = 12 \<longrightarrow>
            handler_from s r w attempt tr
              = (error_outcome
                   ''WebSet operation failed: Failed to get WebSet status after 12 attempts.'',
                 tr @ [HttpGet (statusUrl w),
                       LogError (''Polling attempt 12 failed: '' @ message e),
                       LogErrorObj (Error ''Failed to get WebSet status after 12 attempts.'')]))"
proof (intro conjI impI)
  assume lt: "attempt < 12"
  show "handler_from s r w attempt tr
          = handler_from s r w (attempt + 1)
              (tr @ [HttpGet (statusUrl w),
                     LogError (''Polling attempt '' @ string_of_nat attempt @ '' failed: ''
                               @ message e),
                     Sleep 5000])"
    unfolding handler_from_def
    using poll_loop_catch [OF lt poll_try_transport [OF assms]] by simp
next
  assume eq: "attempt = 12"
  show "handler_from s r w attempt tr
          = (error_outcome
               ''WebSet operation failed: Failed to get WebSet status after 12 attempts.'',
             tr @ [HttpGet (statusUrl w),
                   LogError (''Polling attempt 12 failed: '' @ message e),
                   LogErrorObj (Error ''Failed to get WebSet status after 12 attempts.'')])"
    unfolding handler_from_def eq
    using poll_loop_last [OF poll_try_transport [OF assms]]
    by (simp add: handler_catch_Error)
qed

theorem status_call_failure_retried_witness:
  "handler_from json_tag remote_down ''ws_1'' 1 (polling_start query_only ''ws_1'')
     = handler_from json_tag remote_down ''ws_1'' 2
         (polling_start query_only ''ws_1''
          @ [HttpGet (statusUrl ''ws_1''),
             LogError ''Polling attempt 1 failed: Network Error'',
             Sleep 5000]) \<and>
   handler_from json_tag remote_down ''ws_1'' 12 (replicate 11 (HttpGet (statusUrl ''ws_1'')))
     = (error_outcome ''WebSet operation failed: Failed to get WebSet status after 12 attempts.'',
        replicate 11 (HttpGet (statusUrl ''ws_1''))
        @ [HttpGet (statusUrl ''ws_1''),
           LogError ''Polling attempt 12 failed: Network Error'',
           LogErrorObj (Error ''Failed to get WebSet status after 12 attempts.'')])"
  using status_call_failure_retried
          [of remote_down "polling_start query_only ''ws_1''" "''ws_1''"
              "AxiosError ''Network Error'' None" 1 json_tag]
        status_call_failure_retried
          [of remote_down "replicate 11 (HttpGet (statusUrl ''ws_1''))" "''ws_1''"
              "AxiosError ''Network Error'' None" 12 json_tag]
  by (simp add: remote_down_def string_of_nat_1 del: One_nat_def)

text \<open>
  C10. When the status of attempt \<open>k\<close> is completed or idle and the items call then
  fails at the transport level, the failure is treated like a failed poll: for
  \<open>k < 12\<close> the handler logs it, sleeps 5000 ms and goes on with attempt \<open>k + 1\<close>
  (which polls the status again); for \<open>k = 12\<close> it returns the failure
  "Failed to get WebSet status after 12 attempts.".
\<close>

theorem items_failure_retried:
  assumes "status_reply r (count_list tr (HttpGet (statusUrl w))) = Inr st"
    and "st = ''completed'' \<or> st = ''idle''"
    and "items_reply r (count_list tr (HttpGet (itemsUrl w))) = Inl e"
  shows "(attempt < 12 \<longrightarrow>
            handler_from s r w attempt tr
              = handler_from s r w (attempt + 1)
                  (tr @ [HttpGet (statusUrl w),
                         LogLog (''Attempt '' @ string_of_nat attempt @ '': WebSet status is ''
                                 @ [CHR 0x27] @ st @ [CHR 0x27]),
                         LogLog (''WebSet '' @ w @ '' completed. Fetching items...''),
                         HttpGet (itemsUrl w),
                         LogError (''Polling attempt '' @ string_of_nat attempt @ '' failed: ''
                                   @ message e),
                         Sleep 5000])) \<and>
         (attempt = 12 \<longrightarrow>
            handler_from s r w attempt tr
              = (error_outcome
                   ''WebSet operation failed: Failed to get WebSet status after 12 attempts.'',
                 tr @ [HttpGet (statusUrl w),
                       LogLog (''Attempt 12: WebSet status is '' @ [CHR 0x27] @ st @ [CHR 0x27]),
                       LogLog (''WebSet '' @ w @ '' completed. Fetching items...''),
                       HttpGet (itemsUrl w),
                       LogError (''Polling attempt 12 failed: '' @ message e),
                       LogErrorObj (Error ''Failed to get WebSet status after 12 attempts.'')]))"
proof (intro conjI impI)
  assume lt: "attempt < 12"
  show "handler_from s r w attempt tr
          = handler_from s r w (attempt + 1)
              (tr @ [HttpGet (statusUrl w),
                     LogLog (''Attempt '' @ string_of_nat attempt @ '': WebSet status is ''
                             @ [CHR 0x27] @ st @ [CHR 0x27]),
                     LogLog (''WebSet '' @ w @ '' completed. Fetching items...''),
                     HttpGet (itemsUrl w),
                     LogError (''Polling attempt '' @ string_of_nat attempt @ '' failed: ''
                               @ message e),
                     Sleep 5000])"
    unfolding handler_from_def
    using poll_loop_catch [OF lt poll_try_items_fail [OF assms]] by simp
next
  assume eq: "attempt = 12"
  show "handler_from s r w attempt tr
          = (error_outcome
               ''WebSet operation failed: Failed to get WebSet status after 12 attempts.'',
             tr @ [HttpGet (statusUrl w),
                   LogLog (''Attempt 12: WebSet status is '' @ [CHR 0x27] @ st @ [CHR 0x27]),
                   LogLog (''WebSet '' @ w @ '' completed. Fetching items...''),
                   HttpGet (itemsUrl w),
                   LogError (''Polling attempt 12 failed: '' @ message e),
                   LogErrorObj (Error ''Failed to get WebSet status after 12 attempts.'')])"
    unfolding handler_from_def eq
    using poll_loop_last [OF poll_try_items_fail [OF assms]]
    by (simp add: handler_catch_Error string_of_nat_12)
qed

theorem items_failure_retried_witness:
  "handler_from json_tag remote_items_down ''ws_1'' 1 (polling_start query_only ''ws_1'')
     = handler_from json_tag remote_items_down ''ws_1'' 2
         (polling_start query_only ''ws_1''
          @ [HttpGet (statusUrl ''ws_1''),
             LogLog (''Attempt 1: WebSet status is '' @ [CHR 0x27] @ ''completed'' @ [CHR 0x27]),
             LogLog ''WebSet ws_1 completed. Fetching items...'',
             HttpGet (itemsUrl ''ws_1''),
             LogError ''Polling attempt 1 failed: Network Error'',
             Sleep 5000]) \<and>
   fst (handler_from json_tag remote_items_down ''ws_1'' 12
          (replicate 11 (HttpGet (statusUrl ''ws_1''))))
     = error_outcome ''WebSet operation failed: Failed to get WebSet status after 12 attempts.''"
  using items_failure_retried
          [of remote_items_down "polling_start query_only ''ws_1''" "''ws_1''" "''completed''"
              "AxiosError ''Network Error'' None" 1 json_tag]
        items_failure_retried
          [of remote_items_down "replicate 11 (HttpGet (statusUrl ''ws_1''))" "''ws_1''"
              "''completed''" "AxiosError ''Network Error'' None" 12 json_tag]
  by (simp add: remote_items_down_def string_of_nat_1 del: One_nat_def)

text \<open>
  C1. A status of failed does not stop the workflow. With a remote whose every status
  answer is failed, the handler polls twelve times, sleeping between the polls, and the
  failure it returns is the one of an exhausted loop, which does not name the status.
\<close>

theorem failed_status_keeps_polling:
  "fst (handler json_tag (Some ''key'') remote_failed query_only)
     = error_outcome ''WebSet operation failed: Failed to get WebSet status after 12 attempts.'' \<and>
   actions (snd (handler json_tag (Some ''key'') remote_failed query_only))
     = HttpPost ''/websets/v0/websets/'' (websetParams query_only)
       # concat (replicate 11 [HttpGet (statusUrl ''ws_1''), Sleep 5000])
       @ [HttpGet (statusUrl ''ws_1'')]"
proof -
  have h: "handler json_tag (Some ''key'') remote_failed query_only
             = handler_from json_tag remote_failed ''ws_1'' 1 (polling_start query_only ''ws_1'')"
    by (rule handler_waiting) (simp_all add: query_only_def remote_failed_def)
  have thr: "\<forall>n<12. (\<exists>e. status_reply remote_failed n = Inl e)
                     \<or> status_reply remote_failed n = Inr ''failed''
                     \<or> status_reply remote_failed n = Inr ''error''"
    by (simp add: remote_failed_def)
  obtain x tr3 where p: "poll_loop json_tag remote_failed ''ws_1'' 1
                            (polling_start query_only ''ws_1'') = (x, tr3)"
    by (cases "poll_loop json_tag remote_failed ''ws_1'' 1 (polling_start query_only ''ws_1'')")
  show ?thesis
    using poll_loop_throwing [OF thr, of 1 "polling_start query_only ''ws_1''" "''ws_1''" json_tag]
    unfolding h handler_from_def p
    by (simp add: handler_catch_Error)
qed

text \<open>
  C8. An error thrown inside the loop does not always end in a failure outcome. With a
  remote that answers failed to the first poll and completed to the second, the handler
  returns the items as a success, without an error mark.
\<close>

theorem failed_then_completed_succeeds:
  "fst (handler json_tag (Some ''key'') remote_failed_then_completed query_only)
     = \<lparr>content = [\<lparr>ctype = ''text'', ctext = ''<object>''\<rparr>], isError = None\<rparr> \<and>
   actions (snd (handler json_tag (Some ''key'') remote_failed_then_completed query_only))
     = [HttpPost ''/websets/v0/websets/'' (websetParams query_only),
        HttpGet (statusUrl ''ws_1''), Sleep 5000,
        HttpGet (statusUrl ''ws_1''), HttpGet (itemsUrl ''ws_1'')]"
proof -
  let ?r = remote_failed_then_completed
  let ?t0 = "polling_start query_only ''ws_1''"
  have h: "handler json_tag (Some ''key'') ?r query_only = handler_from json_tag ?r ''ws_1'' 1 ?t0"
    by (rule handler_waiting) (simp_all add: query_only_def remote_failed_then_completed_def)
  obtain e t1 where p1: "poll_try json_tag ?r ''ws_1'' 1 ?t0 = (Inl e, t1)"
    and a1: "actions t1 = actions ?t0 @ [HttpGet (statusUrl ''ws_1'')]"
    and c1: "count_list t1 (HttpGet (statusUrl ''ws_1'')) = 1"
    and i1: "count_list t1 (HttpGet (itemsUrl ''ws_1'')) = 0"
    using poll_try_failed [of ?r ?t0 "''ws_1''" "''failed''" json_tag 1]
    by (simp add: remote_failed_then_completed_def)
  let ?t1 = "t1 @ [LogError (''Polling attempt '' @ string_of_nat 1 @ '' failed: '' @ message e),
                   Sleep 5000]"
  obtain t2 where p2: "poll_try json_tag ?r ''ws_1'' (1 + 1) ?t1
        = (Inr (Some \<lparr>content = [\<lparr>ctype = ''text'', ctext = json_tag no_items\<rparr>],
                      isError = None\<rparr>), t2)"
    and a2: "actions t2 = actions ?t1 @ [HttpGet (statusUrl ''ws_1''), HttpGet (itemsUrl ''ws_1'')]"
    using poll_try_items_ok [of ?r ?t1 "''ws_1''" "''completed''" no_items json_tag "1 + 1"] c1 i1
    by (simp add: remote_failed_then_completed_def)
  have "poll_loop json_tag ?r ''ws_1'' 1 ?t0 = poll_loop json_tag ?r ''ws_1'' (1 + 1) ?t1"
    by (rule poll_loop_catch [OF _ p1]) simp
  also have "\<dots> = (Inr (Some \<lparr>content = [\<lparr>ctype = ''text'', ctext = json_tag no_items\<rparr>],
                               isError = None\<rparr>), t2)"
    by (rule poll_loop_return [OF _ p2]) simp
  finally show ?thesis
    unfolding h handler_from_def by (simp add: a1 a2 no_items_def)
qed

subsection \<open>Further facts\<close>

text \<open>
  For any request, an optional field that is absent leaves no key in the payload (and an
  absent count leaves \<open>search\<close> with the query alone).
\<close>

lemma absent_fields_omitted:
  "(count a = None \<longrightarrow>
      get_field ''search'' (websetParams a) = Some (JObj [(''query'', JStr (query a))])) \<and>
   (criteria a = None \<longrightarrow> get_field ''criteria'' (websetParams a) = None) \<and>
   (entityType a = None \<longrightarrow> get_field ''entity'' (websetParams a) = None) \<and>
   (enrichments a = None \<longrightarrow> get_field ''enrichments'' (websetParams a) = None) \<and>
   (metadata a = None \<longrightarrow> get_field ''metadata'' (websetParams a) = None)"
  using spread_keys(1) [of "criteria a"] spread_keys(2) [of "entityType a"]
        spread_keys(3) [of "enrichments a"] spread_keys(4) [of "metadata a"]
  by (auto simp: get_field_def websetParams_def spread_count_def spread_criteria_def
        spread_entity_def spread_enrichments_def spread_metadata_def)

text \<open>
  The outer \<open>catch\<close> turns whatever the body throws into an outcome marked as an error;
  for an axios error with a response the text carries the status code and the message of
  the response.
\<close>

lemma handler_catch_isError: "isError (fst (handler_catch e tr)) = Some True"
  by (cases e) (simp_all add: handler_catch_def error_outcome_def)

lemma handler_throw_is_caught:
  assumes "k \<noteq> []"
    and "handler_try s r a
           [LogStart (''Query: '' @ query a @ '', Wait: '' @ string_of_bool (waitForCompletion a))]
         = (Inl e, tr)"
  shows "handler s (Some k) r a = handler_catch e tr"
  using assms by (simp add: handler_def truthy_string_def)

lemma creation_failure_outcome:
  assumes "k \<noteq> []"
    and "post_reply r = Inl (AxiosError m (Some \<lparr>status = c, data_message = Some dm\<rparr>))"
    and "c \<noteq> 0" and "dm \<noteq> []"
  shows "fst (handler s (Some k) r a)
           = error_outcome (''WebSet API error ('' @ string_of_nat c @ ''): '' @ dm) \<and>
         actions (snd (handler s (Some k) r a))
           = [HttpPost ''/websets/v0/websets/'' (websetParams a)]"
  using assms
  by (simp add: handler_def handler_try_def handler_catch_def statusCode_def errorMessage_def
        truthy_string_def createUrl_def)

lemma creation_failure_no_response:
  assumes "k \<noteq> []" and "post_reply r = Inl (AxiosError m None)"
  shows "fst (handler s (Some k) r a) = error_outcome (''WebSet API error (unknown): '' @ m)"
  using assms
  by (simp add: handler_def handler_try_def handler_catch_def statusCode_def errorMessage_def
        truthy_string_def)

text \<open>
  When every status call fails at the transport level, the handler polls twelve times,
  sleeping between the polls, and returns the failure of the exhausted loop.
\<close>

lemma status_always_down:
  assumes "k \<noteq> []" and "waitForCompletion a" and "post_reply r = Inr w"
    and down: "\<forall>n<12. \<exists>e. status_reply r n = Inl e"
  shows "fst (handler s (Some k) r a)
           = error_outcome
               ''WebSet operation failed: Failed to get WebSet status after 12 attempts.'' \<and>
         actions (snd (handler s (Some k) r a))
           = HttpPost ''/websets/v0/websets/'' (websetParams a)
             # concat (replicate 11 [HttpGet (statusUrl w), Sleep 5000])
             @ [HttpGet (statusUrl w)]"
proof -
  have h: "handler s (Some k) r a = handler_from s r w 1 (polling_start a w)"
    using assms(1-3) by (rule handler_waiting)
  have thr: "\<forall>n<12. (\<exists>e. status_reply r n = Inl e) \<or> status_reply r n = Inr ''failed''
                     \<or> status_reply r n = Inr ''error''"
    using down by simp
  obtain x tr3 where p: "poll_loop s r w 1 (polling_start a w) = (x, tr3)"
    by (cases "poll_loop s r w 1 (polling_start a w)")
  show ?thesis
    using poll_loop_throwing [OF thr, of 1 "polling_start a w" w s]
    unfolding h handler_from_def p
    by (simp add: handler_catch_Error)
qed

end
